theory Spec2Isabelle
  imports Main "HOL-Library.AList" "HOL-Library.List_Lexorder" "HOL-Library.Char_ord" "HOL-Library.Word"
begin

unbundle bit_operations_syntax

section \<open>Python values, dictionaries and exceptions\<close>

text \<open>
  The server handles JSON-compatible Python values without checking their types, so the
  model keeps them dynamic. Floats are left out: no function modelled here computes with
  one. A \<open>dict\<close> is an association list in insertion order; \<open>d[k] = v\<close> is
  \<open>AList.update\<close> (replace in place, or append), \<open>d.pop(k, None)\<close> is
  \<open>AList.delete\<close>.
\<close>

datatype pyval =
    PNone
  | PBool bool
  | PInt int
  | PStr string
  | PList "pyval list"
  | PDict "(string \<times> pyval) list"

text \<open>Python truthiness, as used by \<open>x or y\<close> and \<open>if x\<close>.\<close>

fun truthy :: "pyval \<Rightarrow> bool" where
  "truthy PNone = False"
| "truthy (PBool b) = b"
| "truthy (PInt i) = (i \<noteq> 0)"
| "truthy (PStr s) = (s \<noteq> [])"
| "truthy (PList xs) = (xs \<noteq> [])"
| "truthy (PDict d) = (d \<noteq> [])"

definition py_or :: "pyval \<Rightarrow> pyval \<Rightarrow> pyval" where
  "py_or a b = (if truthy a then a else b)"

text \<open>\<open>d.get(k, default)\<close> on a dict.\<close>

definition dict_get :: "(string \<times> pyval) list \<Rightarrow> string \<Rightarrow> pyval \<Rightarrow> pyval" where
  "dict_get d k dflt = (case map_of d k of None \<Rightarrow> dflt | Some v \<Rightarrow> v)"

text \<open>
  The exceptions the code raises or catches. All of them are subclasses of Python's
  \<open>Exception\<close>; \<open>HTTPException\<close> carries its status code and detail.
\<close>

datatype exn =
    HTTPException nat string
  | WebSocketDisconnect
  | TypeError string
  | AttributeError string
  | IndexError string
  | OtherException string

section \<open>utils/message\_envelope.py\<close>

subsection \<open>Generated ids and timestamps\<close>

definition hexdigit :: "nat \<Rightarrow> char" where
  "hexdigit n = ''0123456789abcdef'' ! (n mod 16)"

text \<open>\<open>'%0wx' % n\<close>: the \<open>w\<close> low hexadecimal digits of \<open>n\<close>.\<close>

fun hex :: "nat \<Rightarrow> nat \<Rightarrow> string" where
  "hex 0 n = []"
| "hex (Suc w) n = hex w (n div 16) @ [hexdigit n]"

text \<open>
  \<open>uuid.uuid4()\<close> reads 16 random bytes and forces the variant and version bits;
  \<open>str\<close> of it is the 8-4-4-4-12 hexadecimal form.
\<close>

definition uuid4_int :: "128 word \<Rightarrow> 128 word" where
  "uuid4_int r =
     (((r AND NOT (push_bit 48 0xc000)) OR push_bit 48 0x8000)
        AND NOT (push_bit 64 0xf000)) OR push_bit 76 4"

definition str_uuid4 :: "128 word \<Rightarrow> string" where
  "str_uuid4 r =
     (let h = hex 32 (unat (uuid4_int r))
      in take 8 h @ ''-'' @ take 4 (drop 8 h) @ ''-'' @ take 4 (drop 12 h) @ ''-''
           @ take 4 (drop 16 h) @ ''-'' @ drop 20 h)"

record datetime =
  year :: nat
  month :: nat
  day :: nat
  hour :: nat
  minute :: nat
  second :: nat

definition decdigit :: "nat \<Rightarrow> char" where
  "decdigit n = ''0123456789'' ! (n mod 10)"

fun dec :: "nat \<Rightarrow> nat \<Rightarrow> string" where
  "dec 0 n = []"
| "dec (Suc w) n = dec w (n div 10) @ [decdigit n]"

text \<open>\<open>iso_now\<close>: the clock reading formatted with \<open>ISO_FMT = "%Y-%m-%dT%H:%M:%SZ"\<close>.\<close>

definition iso_now :: "datetime \<Rightarrow> string" where
  "iso_now t =
     dec 4 (year t) @ ''-'' @ dec 2 (month t) @ ''-'' @ dec 2 (day t) @ ''T''
       @ dec 2 (hour t) @ '':'' @ dec 2 (minute t) @ '':'' @ dec 2 (second t) @ ''Z''"

subsection \<open>MessageEnvelope\<close>

text \<open>
  The attributes of a \<open>MessageEnvelope\<close>. The attribute \<open>id\<close> is named
  \<open>envelope_id\<close> here, since \<open>id\<close> is the identity function of HOL.
\<close>

record envelope =
  version :: pyval
  type :: pyval
  envelope_id :: pyval
  correlationId :: pyval
  ts :: pyval
  action :: pyval
  status :: pyval
  payload :: pyval
  meta :: pyval

text \<open>The parameters of \<open>MessageEnvelope.__init__\<close> after \<open>self\<close>.\<close>

definition init_params :: "string list" where
  "init_params =
     [''action'', ''type'', ''payload'', ''status'', ''correlationId'', ''meta'',
      ''version'', ''id'', ''ts'']"

text \<open>
  \<open>MessageEnvelope(**kwargs)\<close>. Every call in the repository passes keyword arguments
  only, so a call is its list of keywords in the order written. Python binds the keywords
  first: one that is no parameter raises \<open>TypeError\<close>, and so does a call without the
  required \<open>action\<close>. The body then fills the attributes; the random bytes behind
  \<open>uuid.uuid4()\<close> and the clock behind \<open>iso_now()\<close> are the arguments \<open>rnd\<close> and
  \<open>now\<close>.
\<close>

definition MessageEnvelope_init ::
    "128 word \<Rightarrow> datetime \<Rightarrow> (string \<times> pyval) list \<Rightarrow> exn + envelope" where
  "MessageEnvelope_init rnd now kwargs =
     (case filter (\<lambda>k. k \<notin> set init_params) (map fst kwargs) of
        k # _ \<Rightarrow> Inl (TypeError (''__init__() got an unexpected keyword argument '' @ k))
      | [] \<Rightarrow>
          (case map_of kwargs ''action'' of
             None \<Rightarrow> Inl (TypeError ''__init__() missing 1 required positional argument: action'')
           | Some act \<Rightarrow>
               (let i = py_or (dict_get kwargs ''id'' PNone) (PStr (str_uuid4 rnd))
                in Inr \<lparr>version = dict_get kwargs ''version'' (PInt 1),
                        type = dict_get kwargs ''type'' (PStr ''command''),
                        envelope_id = i,
                        correlationId = py_or (dict_get kwargs ''correlationId'' PNone) i,
                        ts = py_or (dict_get kwargs ''ts'' PNone) (PStr (iso_now now)),
                        action = act,
                        status = dict_get kwargs ''status'' PNone,
                        payload = py_or (dict_get kwargs ''payload'' PNone) (PDict []),
                        meta = py_or (dict_get kwargs ''meta'' PNone) (PDict [])\<rparr>)))"

definition to_dict :: "envelope \<Rightarrow> (string \<times> pyval) list" where
  "to_dict self =
     (let d = [(''version'', version self),
               (''type'', type self),
               (''id'', envelope_id self),
               (''correlationId'', correlationId self),
               (''ts'', ts self),
               (''action'', action self),
               (''payload'', payload self),
               (''meta'', meta self)]
      in if status self \<noteq> PNone then AList.update ''status'' (status self) d else d)"

definition from_dict ::
    "128 word \<Rightarrow> datetime \<Rightarrow> (string \<times> pyval) list \<Rightarrow> exn + envelope" where
  "from_dict rnd now data =
     MessageEnvelope_init rnd now
       [(''action'', dict_get data ''action'' (PStr [])),
        (''type'', dict_get data ''type'' (PStr ''command'')),
        (''payload'', dict_get data ''payload'' PNone),
        (''status'', dict_get data ''status'' PNone),
        (''correlationId'', dict_get data ''correlationId'' PNone),
        (''meta'', dict_get data ''meta'' PNone),
        (''version'', dict_get data ''version'' (PInt 1)),
        (''id'', dict_get data ''id'' PNone),
        (''ts'', dict_get data ''ts'' PNone)]"

section \<open>The identity pool: the storage layer and assign\_device\_id\<close>

text \<open>
  A record of the identity table: its key and the token it is bound to, \<open>PNone\<close>
  being SQL's \<open>NULL\<close>. The store holds whatever value a statement binds.
\<close>

record row =
  device_id :: string
  device_uuid :: pyval

text \<open>
  The relational store behind \<open>db\<close>: its tables by name, and \<open>fault\<close>, set while
  the store cannot be reached (every statement and commit then raises). The code names
  its tables in SQL text (\<open>deviceids\<close>, \<open>device_ids\<close>), so the model looks them
  up by name; a statement on a table that does not exist raises. Statements take effect
  at once; \<open>rollback\<close> is applied to the store as it was when the transaction began.
\<close>

record db =
  tables :: "(string \<times> row list) list"
  fault :: "string option"

definition db_rows :: "db \<Rightarrow> string \<Rightarrow> exn + row list" where
  "db_rows d name =
     (case fault d of
        Some m \<Rightarrow> Inl (OtherException m)
      | None \<Rightarrow>
          (case map_of (tables d) name of
             None \<Rightarrow> Inl (OtherException (''no such table: '' @ name))
           | Some rows \<Rightarrow> Inr rows))"

definition db_commit :: "db \<Rightarrow> exn + db" where
  "db_commit d = (case fault d of Some m \<Rightarrow> Inl (OtherException m) | None \<Rightarrow> Inr d)"

definition db_rollback :: "db \<Rightarrow> db" where
  "db_rollback d = d"

text \<open>
  \<open>SELECT device_id FROM deviceids WHERE device_uuid IS NULL ORDER BY device_id ASC LIMIT 1\<close>
  followed by \<open>result.first()\<close>. Keys are ordered as strings, character by character.
\<close>

definition select_first_unassigned :: "db \<Rightarrow> exn + string option" where
  "select_first_unassigned d =
     (case db_rows d ''deviceids'' of
        Inl e \<Rightarrow> Inl e
      | Inr rows \<Rightarrow>
          Inr (case sort (map device_id (filter (\<lambda>r. device_uuid r = PNone) rows)) of
                 [] \<Rightarrow> None
               | k # _ \<Rightarrow> Some k))"

text \<open>\<open>UPDATE deviceids SET device_uuid = :message_id WHERE device_id = :device_id\<close>.\<close>

definition bind_rows :: "pyval \<Rightarrow> string \<Rightarrow> row list \<Rightarrow> row list" where
  "bind_rows message_id k rows =
     map (\<lambda>r. if device_id r = k then r\<lparr>device_uuid := message_id\<rparr> else r) rows"

definition update_device_uuid :: "pyval \<Rightarrow> string \<Rightarrow> db \<Rightarrow> exn + db" where
  "update_device_uuid message_id k d =
     (case db_rows d ''deviceids'' of
        Inl e \<Rightarrow> Inl e
      | Inr rows \<Rightarrow>
          Inr (d\<lparr>tables := AList.update ''deviceids'' (bind_rows message_id k rows) (tables d)\<rparr>))"

text \<open>
  \<open>assign_device_id(message_id, db)\<close>: the result or the exception raised, and the
  store afterwards.
\<close>

definition assign_device_id :: "pyval \<Rightarrow> db \<Rightarrow> (exn + string) \<times> db" where
  "assign_device_id message_id d =
     (case select_first_unassigned d of
        Inl e \<Rightarrow> (Inl e, d)
      | Inr None \<Rightarrow> (Inl (HTTPException 404 ''No available device IDs to assign''), d)
      | Inr (Some k) \<Rightarrow>
          (case update_device_uuid message_id k d of
             Inl e \<Rightarrow> (Inl e, d)
           | Inr d' \<Rightarrow>
               (case db_commit d' of
                  Inl e \<Rightarrow> (Inl e, d')
                | Inr d'' \<Rightarrow> (Inr k, d''))))"

subsection \<open>Calls one after another, and calls that interleave\<close>

text \<open>
  \<open>assign_device_id\<close> awaits three times: the select, the update and the commit.
  Another call can run between two of them. A call in progress is a task: not started,
  holding the key it selected, having updated, or finished with its result.
\<close>

datatype claim_task =
    Start pyval
  | Selected pyval string
  | Updated pyval string
  | Finished "exn + string"

fun task_step :: "claim_task \<Rightarrow> db \<Rightarrow> claim_task \<times> db" where
  "task_step (Start message_id) d =
     (case select_first_unassigned d of
        Inl e \<Rightarrow> (Finished (Inl e), d)
      | Inr None \<Rightarrow> (Finished (Inl (HTTPException 404 ''No available device IDs to assign'')), d)
      | Inr (Some k) \<Rightarrow> (Selected message_id k, d))"
| "task_step (Selected message_id k) d =
     (case update_device_uuid message_id k d of
        Inl e \<Rightarrow> (Finished (Inl e), d)
      | Inr d' \<Rightarrow> (Updated message_id k, d'))"
| "task_step (Updated message_id k) d =
     (case db_commit d of
        Inl e \<Rightarrow> (Finished (Inl e), d)
      | Inr d' \<Rightarrow> (Finished (Inr k), d'))"
| "task_step (Finished r) d = (Finished r, d)"

text \<open>
  A schedule names, step by step, the task that runs next; a number that names no task
  is skipped.
\<close>

fun run_schedule :: "nat list \<Rightarrow> claim_task list \<Rightarrow> db \<Rightarrow> claim_task list \<times> db" where
  "run_schedule [] tasks d = (tasks, d)"
| "run_schedule (i # sched) tasks d =
     (if i < length tasks
      then (case task_step (tasks ! i) d of
              (t', d') \<Rightarrow> run_schedule sched (tasks[i := t']) d')
      else run_schedule sched tasks d)"

text \<open>Calls one after another: each runs to its end before the next starts.\<close>

fun assign_all :: "pyval list \<Rightarrow> db \<Rightarrow> (exn + string) list \<times> db" where
  "assign_all [] d = ([], d)"
| "assign_all (m # ms) d =
     (case assign_device_id m d of
        (r, d') \<Rightarrow> (case assign_all ms d' of (rs, d'') \<Rightarrow> (r # rs, d'')))"

text \<open>The unassigned keys of a table.\<close>

definition unassigned :: "row list \<Rightarrow> string set" where
  "unassigned rows = set (map device_id (filter (\<lambda>r. device_uuid r = PNone) rows))"

section \<open>The connection registry\<close>

text \<open>
  A \<open>WebSocket\<close> object is a handle. What the process shares with the outside is one
  state: the registry \<open>manager.active_connections\<close> (a dict, in insertion order), the
  messages delivered so far on each channel, the channels on which a send raises and the
  exception it raises, the close codes sent, and the store.
\<close>

type_synonym websocket = nat

record world =
  active_connections :: "(string \<times> websocket) list"
  sent :: "(websocket \<times> pyval) list"
  send_error :: "(websocket \<times> exn) list"
  closes :: "(websocket \<times> nat) list"
  store :: db

text \<open>\<open>await ws.send_json(message)\<close>: delivers, or raises and delivers nothing.\<close>

definition send_json :: "websocket \<Rightarrow> pyval \<Rightarrow> world \<Rightarrow> exn + world" where
  "send_json ws message w =
     (case map_of (send_error w) ws of
        Some e \<Rightarrow> Inl e
      | None \<Rightarrow> Inr (w\<lparr>sent := sent w @ [(ws, message)]\<rparr>))"

text \<open>
  \<open>ConnectionManager.connect\<close>: the handshake \<open>websocket.accept()\<close> is taken to
  succeed; the entry of an existing key is replaced in place.
\<close>

definition ConnectionManager_connect :: "string \<Rightarrow> websocket \<Rightarrow> world \<Rightarrow> world" where
  "ConnectionManager_connect uuid ws w =
     w\<lparr>active_connections := AList.update uuid ws (active_connections w)\<rparr>"

definition ConnectionManager_disconnect :: "string \<Rightarrow> world \<Rightarrow> world" where
  "ConnectionManager_disconnect uuid w =
     w\<lparr>active_connections := AList.delete uuid (active_connections w)\<rparr>"

text \<open>
  \<open>ConnectionManager.send_command\<close>. A \<open>WebSocket\<close> object is truthy, so
  \<open>if ws\<close> asks whether the key is registered. \<open>except Exception\<close> catches whatever
  the send raises; the method itself raises nothing.
\<close>

definition ConnectionManager_send_command :: "string \<Rightarrow> pyval \<Rightarrow> world \<Rightarrow> world" where
  "ConnectionManager_send_command uuid command w =
     (case map_of (active_connections w) uuid of
        None \<Rightarrow> w
      | Some ws \<Rightarrow>
          (case send_json ws command w of
             Inl e \<Rightarrow> ConnectionManager_disconnect uuid w
           | Inr w' \<Rightarrow> w'))"

text \<open>
  \<open>ConnectionManager.broadcast\<close>: the loop runs over \<open>list(self.active_connections.items())\<close>,
  a copy taken before the first send, while \<open>disconnect\<close> changes the registry itself.
\<close>

fun broadcast_loop :: "(string \<times> websocket) list \<Rightarrow> pyval \<Rightarrow> world \<Rightarrow> world" where
  "broadcast_loop [] command w = w"
| "broadcast_loop ((uuid, ws) # items) command w =
     (case send_json ws command w of
        Inl e \<Rightarrow> broadcast_loop items command (ConnectionManager_disconnect uuid w)
      | Inr w' \<Rightarrow> broadcast_loop items command w')"

definition ConnectionManager_broadcast :: "pyval \<Rightarrow> world \<Rightarrow> world" where
  "ConnectionManager_broadcast command w = broadcast_loop (active_connections w) command w"

section \<open>The HTTP endpoints\<close>

text \<open>
  An endpoint returns a \<open>JSONResponse\<close> or raises. FastAPI answers a raised
  \<open>HTTPException\<close> with its status code and any other exception with 500; a
  \<open>JSONResponse\<close> built without a status code has 200.
\<close>

record response =
  status_code :: nat
  content :: pyval

definition JSONResponse :: "pyval \<Rightarrow> response" where
  "JSONResponse c = \<lparr>status_code = 200, content = c\<rparr>"

fun response_status :: "exn + response \<Rightarrow> nat" where
  "response_status (Inr r) = status_code r"
| "response_status (Inl (HTTPException code detail)) = code"
| "response_status (Inl e) = 500"

text \<open>\<open>POST /command/broadcast\<close> and \<open>POST /command/{uuid}\<close>; \<open>body\<close> is the parsed request body.\<close>

definition broadcast_command :: "pyval \<Rightarrow> world \<Rightarrow> (exn + response) \<times> world" where
  "broadcast_command body w =
     (Inr (JSONResponse (PDict [(''status'', PStr ''broadcasted'')])),
      ConnectionManager_broadcast body w)"

definition send_command :: "string \<Rightarrow> pyval \<Rightarrow> world \<Rightarrow> (exn + response) \<times> world" where
  "send_command uuid body w =
     (Inr (JSONResponse (PDict [(''status'', PStr ''sent''), (''uuid'', PStr uuid)])),
      ConnectionManager_send_command uuid body w)"

subsection \<open>Deleting identities\<close>

text \<open>
  Modelled from the spec: \<open>utils/device.py\<close> is not among the sources, and the spec gives
  the external credential platform only as a create/delete interface. A call of
  \<open>delete_device_credential\<close> is recorded in \<open>delete_calls\<close>; the keys for which it
  raises, and what it raises, are the parameter \<open>delete_error\<close>.
\<close>

record hub =
  delete_error :: "(string \<times> exn) list"
  delete_calls :: "string list"

definition delete_device_credential :: "string \<Rightarrow> hub \<Rightarrow> exn option \<times> hub" where
  "delete_device_credential dev h =
     (map_of (delete_error h) dev, h\<lparr>delete_calls := delete_calls h @ [dev]\<rparr>)"

text \<open>\<open>DELETE FROM tbl WHERE device_id = :device_id\<close>: the row count and the store.\<close>

definition delete_where_device_id :: "string \<Rightarrow> string \<Rightarrow> db \<Rightarrow> exn + (nat \<times> db)" where
  "delete_where_device_id tbl dev d =
     (case db_rows d tbl of
        Inl e \<Rightarrow> Inl e
      | Inr rows \<Rightarrow>
          Inr (length (filter (\<lambda>r. device_id r = dev) rows),
               d\<lparr>tables := AList.update tbl (filter (\<lambda>r. device_id r \<noteq> dev) rows) (tables d)\<rparr>))"

text \<open>The body of the second \<open>try\<close> of \<open>delete_device\<close>.\<close>

definition delete_device_try :: "string \<Rightarrow> db \<Rightarrow> exn + db" where
  "delete_device_try dev d =
     (case delete_where_device_id ''device_ids'' dev d of
        Inl e \<Rightarrow> Inl e
      | Inr (rowcount, d') \<Rightarrow>
          if rowcount = 0 then Inl (HTTPException 404 ''Device ID not found in DB'')
          else db_commit d')"

text \<open>
  \<open>POST /delete_device/{device_id}\<close>. The \<open>except Exception\<close> of the second \<open>try\<close>
  catches every exception its body raises, the \<open>HTTPException\<close> with status 404 too;
  after the rollback the store is as it was before the \<open>try\<close>.
\<close>

definition delete_device :: "string \<Rightarrow> hub \<times> db \<Rightarrow> (exn + response) \<times> (hub \<times> db)" where
  "delete_device dev st =
     (case st of (h, d) \<Rightarrow>
        (case delete_device_credential dev h of
           (Some e, h') \<Rightarrow> (Inl (HTTPException 500 ''Azure IoT Hub deletion error''), (h', d))
         | (None, h') \<Rightarrow>
             (case delete_device_try dev d of
                Inl e \<Rightarrow> (Inl (HTTPException 500 ''Database deletion error''), (h', db_rollback d))
              | Inr d' \<Rightarrow>
                  (Inr (JSONResponse (PDict [(''deleted_device_id'', PStr dev)])), (h', d')))))"

text \<open>\<open>str(n)\<close> for a natural number, and the format \<open>{n:04d}\<close>.\<close>

fun decimal :: "nat \<Rightarrow> string" where
  "decimal n = (if n < 10 then [decdigit n] else decimal (n div 10) @ [decdigit n])"

declare decimal.simps [simp del]

definition fmt_04d :: "nat \<Rightarrow> string" where
  "fmt_04d n = replicate (4 - length (decimal n)) (CHR ''0'') @ decimal n"

text \<open>The fallback of \<open>delete_all_devices\<close>: \<open>simdevice{(i+1):04d}\<close> for \<open>i\<close> in \<open>range(1000)\<close>.\<close>

definition fallback_device_ids :: "string list" where
  "fallback_device_ids = map (\<lambda>i. ''simdevice'' @ fmt_04d (i + 1)) [0..<1000]"

text \<open>The loop over \<open>device_ids\<close>: a deletion that raises is logged and the loop goes on.\<close>

fun delete_credentials :: "string list \<Rightarrow> hub \<Rightarrow> hub" where
  "delete_credentials [] h = h"
| "delete_credentials (dev # devs) h =
     (case delete_device_credential dev h of (r, h') \<Rightarrow> delete_credentials devs h')"

text \<open>\<open>await db.execute(sa.delete(DeviceId))\<close> and the commit: the body of the last \<open>try\<close>.\<close>

definition delete_all_rows :: "string \<Rightarrow> db \<Rightarrow> exn + db" where
  "delete_all_rows tbl d =
     (case db_rows d tbl of
        Inl e \<Rightarrow> Inl e
      | Inr rows \<Rightarrow> db_commit (d\<lparr>tables := AList.update tbl [] (tables d)\<rparr>))"

text \<open>
  \<open>POST /delete_all_devices\<close>. The table of the ORM class \<open>DeviceId\<close> is declared in
  \<open>utils/dbconnection.py\<close>, which is not among the sources: its name is the parameter
  \<open>DeviceId_table\<close>. The rows of \<open>select(DeviceId)\<close> are \<open>DeviceId\<close> objects, which
  have the attribute \<open>device_id\<close>. The select is outside every \<open>try\<close>: an exception of
  it leaves the endpoint.
\<close>

definition delete_all_devices :: "string \<Rightarrow> hub \<times> db \<Rightarrow> (exn + response) \<times> (hub \<times> db)" where
  "delete_all_devices DeviceId_table st =
     (case st of (h, d) \<Rightarrow>
        (case db_rows d DeviceId_table of
           Inl e \<Rightarrow> (Inl e, (h, d))
         | Inr rows \<Rightarrow>
             (let device_ids = (if rows \<noteq> [] then map device_id rows else fallback_device_ids);
                  h' = delete_credentials device_ids h
              in (case delete_all_rows DeviceId_table d of
                    Inl e \<Rightarrow> (Inl (HTTPException 500 ''Database deletion error''), (h', db_rollback d))
                  | Inr d' \<Rightarrow>
                      (Inr (JSONResponse (PDict [(''status'', PStr ''all devices deleted'')])),
                       (h', d'))))))"

section \<open>The session handler\<close>

text \<open>The environment variables the handler reads.\<close>

record config =
  API_BEARER_TOKEN :: "string option"
  IOT_CONNECTION_STRING :: "string option"
  IOT_PRIMARY_KEY_DEVICE :: "string option"

subsection \<open>generate\_uuid and generate\_iothub\_connection\_string\<close>

definition b64char :: "nat \<Rightarrow> char" where
  "b64char n =
     ''ABCDEFGHIJKLMNOPQRSTUVWXYZabcdefghijklmnopqrstuvwxyz0123456789-_'' ! (n mod 64)"

fun urlsafe_b64encode :: "8 word list \<Rightarrow> string" where
  "urlsafe_b64encode [] = []"
| "urlsafe_b64encode [a] =
     [b64char (unat a div 4), b64char (unat a mod 4 * 16), CHR ''='', CHR ''='']"
| "urlsafe_b64encode [a, b] =
     [b64char (unat a div 4), b64char (unat a mod 4 * 16 + unat b div 16),
      b64char (unat b mod 16 * 4), CHR ''='']"
| "urlsafe_b64encode (a # b # c # rest) =
     [b64char (unat a div 4), b64char (unat a mod 4 * 16 + unat b div 16),
      b64char (unat b mod 16 * 4 + unat c div 64), b64char (unat c mod 64)]
     @ urlsafe_b64encode rest"

text \<open>
  \<open>generate_uuid\<close>: \<open>random_bytes\<close> is what \<open>os.urandom(32)\<close> returned; the padding is
  stripped from the right.
\<close>

definition generate_uuid :: "8 word list \<Rightarrow> string" where
  "generate_uuid random_bytes =
     rev (dropWhile (\<lambda>c. c = CHR ''='') (rev (urlsafe_b64encode random_bytes)))"

text \<open>\<open>s.split(sep)[0]\<close> and \<open>s.split(sep)[1]\<close> for a separator of one character.\<close>

definition split_0 :: "char \<Rightarrow> string \<Rightarrow> string" where
  "split_0 sep s = takeWhile (\<lambda>c. c \<noteq> sep) s"

definition split_1 :: "char \<Rightarrow> string \<Rightarrow> exn + string" where
  "split_1 sep s =
     (case dropWhile (\<lambda>c. c \<noteq> sep) s of
        [] \<Rightarrow> Inl (IndexError ''list index out of range'')
      | _ # rest \<Rightarrow> Inr (takeWhile (\<lambda>c. c \<noteq> sep) rest))"

definition generate_iothub_connection_string :: "config \<Rightarrow> string \<Rightarrow> exn + string" where
  "generate_iothub_connection_string cfg dev =
     (case IOT_CONNECTION_STRING cfg of
        None \<Rightarrow> Inl (AttributeError ''NoneType object has no attribute split'')
      | Some cs \<Rightarrow>
          (case split_1 (CHR ''='') (split_0 (CHR '';'') cs) of
             Inl e \<Rightarrow> Inl e
           | Inr host_name \<Rightarrow>
               Inr (''HostName='' @ host_name @ '';DeviceId='' @ dev @ '';SharedAccessKey=''
                    @ (case IOT_PRIMARY_KEY_DEVICE cfg of None \<Rightarrow> ''None'' | Some k \<Rightarrow> k))))"

subsection \<open>websocket\_endpoint\<close>

text \<open>The handshake: the \<open>authorization\<close> header and the \<open>token\<close> query parameter.\<close>

record ws_request =
  authorization :: "string option"
  token_param :: "string option"

definition lower :: "string \<Rightarrow> string" where
  "lower s =
     map (\<lambda>c. if CHR ''A'' \<le> c \<and> c \<le> CHR ''Z'' then char_of (of_char c + (32::nat)) else c) s"

text \<open>
  The token of a handshake. When the lowered header starts with \<open>bearer\<close> and a space,
  \<open>auth.split(" ", 1)[1]\<close> is the header after its first seven characters.
\<close>

definition request_token :: "ws_request \<Rightarrow> string option" where
  "request_token req =
     (case authorization req of
        Some auth \<Rightarrow>
          if auth \<noteq> [] \<and> take 7 (lower auth) = ''bearer '' then Some (drop 7 auth)
          else token_param req
      | None \<Rightarrow> token_param req)"

text \<open>
  What one turn of the loop takes from outside: what \<open>receive_json\<close> returns or raises,
  the bytes \<open>os.urandom\<close> gives to \<open>generate_uuid\<close>, and the random bytes and the clock
  the envelope constructor would read.
\<close>

record io =
  received :: "exn + pyval"
  urandom :: "8 word list"
  uuid4_bytes :: "128 word"
  utcnow :: datetime

text \<open>How one turn of the \<open>while True\<close> loop ends.\<close>

datatype loop_ctl = Continue | Break | Raise exn

text \<open>\<open>str(e)\<close> of an exception.\<close>

fun str_exn :: "exn \<Rightarrow> string" where
  "str_exn (HTTPException code detail) = decimal code @ '': '' @ detail"
| "str_exn WebSocketDisconnect = []"
| "str_exn (TypeError m) = m"
| "str_exn (AttributeError m) = m"
| "str_exn (IndexError m) = m"
| "str_exn (OtherException m) = m"

text \<open>
  The clause \<open>except HTTPException as he\<close> (lines 161 to 179). The constructor is called
  with the keyword \<open>correlation_id\<close>. An exception raised here, inside the handler of the
  inner \<open>try\<close>, is not caught by the clause \<open>except Exception\<close> beside it.
\<close>

definition on_http_exception ::
    "websocket \<Rightarrow> io \<Rightarrow> (string \<times> pyval) list \<Rightarrow> nat \<Rightarrow> string \<Rightarrow> world \<Rightarrow> loop_ctl \<times> world" where
  "on_http_exception ws inp data code detail w =
     (case MessageEnvelope_init (uuid4_bytes inp) (utcnow inp)
             [(''action'', dict_get data ''action'' (PStr ''unknown'')),
              (''type'', PStr ''error''),
              (''id'', PStr (generate_uuid (urandom inp))),
              (''correlation_id'', dict_get data ''id'' (PStr [])),
              (''payload'', PDict []),
              (''status'', PStr ''failure''),
              (''meta'', PDict [(''http_detail'', PStr detail),
                              (''http_status'', PInt (int code))])] of
        Inl e \<Rightarrow> (Raise e, w)
      | Inr envelope \<Rightarrow>
          (case send_json ws (PDict (to_dict envelope)) w of
             Inl e \<Rightarrow> (Break, w)
           | Inr w' \<Rightarrow> (Continue, w')))"

text \<open>The clause \<open>except Exception as e\<close> (lines 180 to 196): it breaks after the send.\<close>

definition on_exception ::
    "websocket \<Rightarrow> io \<Rightarrow> (string \<times> pyval) list \<Rightarrow> exn \<Rightarrow> world \<Rightarrow> loop_ctl \<times> world" where
  "on_exception ws inp data e w =
     (case MessageEnvelope_init (uuid4_bytes inp) (utcnow inp)
             [(''action'', dict_get data ''action'' (PStr ''unknown'')),
              (''type'', PStr ''error''),
              (''id'', PStr (generate_uuid (urandom inp))),
              (''correlation_id'', dict_get data ''id'' (PStr [])),
              (''payload'', PDict []),
              (''status'', PStr ''failure''),
              (''meta'', PDict [(''error'', PStr (str_exn e))])] of
        Inl e' \<Rightarrow> (Raise e', w)
      | Inr envelope \<Rightarrow>
          (case send_json ws (PDict (to_dict envelope)) w of
             Inl e' \<Rightarrow> (Break, w)
           | Inr w' \<Rightarrow> (Break, w')))"

text \<open>
  The response to a successful claim (lines 197 to 216). The send is outside the inner
  \<open>try\<close>: what it raises leaves the loop.
\<close>

definition send_config ::
    "config \<Rightarrow> websocket \<Rightarrow> io \<Rightarrow> (string \<times> pyval) list \<Rightarrow> string \<Rightarrow> world \<Rightarrow> loop_ctl \<times> world" where
  "send_config cfg ws inp data assigned_device_id w =
     (case generate_iothub_connection_string cfg assigned_device_id of
        Inl e \<Rightarrow> (Raise e, w)
      | Inr connection_string \<Rightarrow>
          (case MessageEnvelope_init (uuid4_bytes inp) (utcnow inp)
                  [(''version'', PInt 1),
                   (''type'', PStr ''response''),
                   (''id'', PStr (generate_uuid (urandom inp))),
                   (''correlationId'', dict_get data ''id'' (PStr [])),
                   (''action'', PStr ''device.config.update''),
                   (''payload'', PDict [(''device_id'', PStr assigned_device_id),
                                      (''IOTHUB_DEVICE_CONNECTION_STRING'', PStr connection_string),
                                      (''initialRetryTimeout'', PInt 30),
                                      (''maxRetry'', PInt 10),
                                      (''messageIntervalSeconds'', PInt 5)]),
                   (''status'', PStr ''success'')] of
             Inl e \<Rightarrow> (Raise e, w)
           | Inr envelope \<Rightarrow>
               (case send_json ws (PDict (to_dict envelope)) w of
                  Inl e \<Rightarrow> (Raise e, w)
                | Inr w' \<Rightarrow> (Continue, w'))))"

text \<open>A message of type \<open>request\<close> (lines 153 to 216).\<close>

definition handle_request ::
    "config \<Rightarrow> websocket \<Rightarrow> io \<Rightarrow> (string \<times> pyval) list \<Rightarrow> world \<Rightarrow> loop_ctl \<times> world" where
  "handle_request cfg ws inp data w =
     (case assign_device_id (dict_get data ''id'' (PStr [])) (store w) of
        (Inl e, d) \<Rightarrow>
          (case e of
             HTTPException code detail \<Rightarrow> on_http_exception ws inp data code detail (w\<lparr>store := d\<rparr>)
           | _ \<Rightarrow> on_exception ws inp data e (w\<lparr>store := d\<rparr>))
      | (Inr assigned_device_id, d) \<Rightarrow>
          send_config cfg ws inp data assigned_device_id (w\<lparr>store := d\<rparr>))"

text \<open>A message of type \<open>report\<close> (lines 218 to 229).\<close>

definition handle_report ::
    "websocket \<Rightarrow> io \<Rightarrow> (string \<times> pyval) list \<Rightarrow> world \<Rightarrow> loop_ctl \<times> world" where
  "handle_report ws inp data w =
     (case MessageEnvelope_init (uuid4_bytes inp) (utcnow inp)
             [(''version'', PInt 1),
              (''type'', PStr ''response''),
              (''action'', PStr ''none''),
              (''id'', PStr (generate_uuid (urandom inp))),
              (''correlationId'', dict_get data ''id'' (PStr [])),
              (''status'', PStr ''received'')] of
        Inl e \<Rightarrow> (Raise e, w)
      | Inr envelope \<Rightarrow>
          (case send_json ws (PDict (to_dict envelope)) w of
             Inl e \<Rightarrow> (Raise e, w)
           | Inr w' \<Rightarrow> (Continue, w')))"

text \<open>
  One turn of the loop after \<open>receive_json\<close> has returned \<open>msg\<close>. A message that is no
  JSON object has no \<open>get\<close>: the first \<open>data.get\<close> raises \<open>AttributeError\<close>. The two
  \<open>if\<close> statements test for different types, so at most one of them runs.
\<close>

definition handle_message :: "config \<Rightarrow> websocket \<Rightarrow> io \<Rightarrow> pyval \<Rightarrow> world \<Rightarrow> loop_ctl \<times> world" where
  "handle_message cfg ws inp msg w =
     (case msg of
        PDict data \<Rightarrow>
          if map_of data ''type'' = Some (PStr ''request'') then handle_request cfg ws inp data w
          else if map_of data ''type'' = Some (PStr ''report'') then handle_report ws inp data w
          else (Continue, w)
      | _ \<Rightarrow> (Raise (AttributeError ''object has no attribute get''), w))"

text \<open>
  How the handler ends: it returned, an exception left it, or it is still waiting in
  \<open>receive_json\<close> when the script of the connection is used up.
\<close>

datatype outcome = Returned | Raised exn | Waiting

text \<open>
  An exception that leaves the body of the outer \<open>try\<close>: the only clause is
  \<open>except WebSocketDisconnect\<close> (lines 231 to 233); there is no \<open>finally\<close>.
\<close>

definition leave_try :: "string \<Rightarrow> exn \<Rightarrow> world \<Rightarrow> outcome \<times> world" where
  "leave_try uuid e w =
     (if e = WebSocketDisconnect then (Returned, ConnectionManager_disconnect uuid w)
      else (Raised e, w))"

text \<open>The \<open>while True\<close> loop; a \<open>break\<close> ends the \<open>try\<close> normally and the handler returns.\<close>

fun session_loop :: "config \<Rightarrow> string \<Rightarrow> websocket \<Rightarrow> io list \<Rightarrow> world \<Rightarrow> outcome \<times> world" where
  "session_loop cfg uuid ws [] w = (Waiting, w)"
| "session_loop cfg uuid ws (inp # script) w =
     (case received inp of
        Inl e \<Rightarrow> leave_try uuid e w
      | Inr msg \<Rightarrow>
          (case handle_message cfg ws inp msg w of
             (Continue, w') \<Rightarrow> session_loop cfg uuid ws script w'
           | (Break, w') \<Rightarrow> (Returned, w')
           | (Raise e, w') \<Rightarrow> leave_try uuid e w'))"

definition websocket_endpoint ::
    "config \<Rightarrow> ws_request \<Rightarrow> string \<Rightarrow> websocket \<Rightarrow> io list \<Rightarrow> world \<Rightarrow> outcome \<times> world" where
  "websocket_endpoint cfg req uuid ws script w =
     (if (case API_BEARER_TOKEN cfg of None \<Rightarrow> False | Some t \<Rightarrow> t \<noteq> [])
         \<and> request_token req \<noteq> API_BEARER_TOKEN cfg
      then (Returned, w\<lparr>closes := closes w @ [(ws, 1008)]\<rparr>)
      else session_loop cfg uuid ws script (ConnectionManager_connect uuid ws w))"

section \<open>Properties of the envelope\<close>

lemma str_uuid4_nonempty: "str_uuid4 r \<noteq> []"
  by (simp add: str_uuid4_def Let_def)

lemma iso_now_nonempty: "iso_now t \<noteq> []"
  by (simp add: iso_now_def)

lemma py_or_truthy: "truthy b \<Longrightarrow> truthy (py_or a b)"
  by (simp add: py_or_def)

lemma py_or_absorb: "truthy a \<Longrightarrow> py_or a b = a"
  by (simp add: py_or_def)

lemma py_or_empty_dict: "py_or (py_or a (PDict [])) (PDict []) = py_or a (PDict [])"
  by (simp add: py_or_def)

lemma from_dict_to_dict:
  assumes "truthy (envelope_id e)" and "truthy (correlationId e)" and "truthy (ts e)"
    and "py_or (payload e) (PDict []) = payload e" and "py_or (meta e) (PDict []) = meta e"
  shows "from_dict rnd now (to_dict e) = Inr e"
  using assms
  by (cases "status e = PNone")
     (simp_all add: from_dict_def to_dict_def MessageEnvelope_init_def init_params_def
        dict_get_def py_or_absorb Let_def)

lemma init_invariant:
  assumes "MessageEnvelope_init rnd now kwargs = Inr e"
  shows "truthy (envelope_id e) \<and> truthy (correlationId e) \<and> truthy (ts e)
         \<and> py_or (payload e) (PDict []) = payload e \<and> py_or (meta e) (PDict []) = meta e"
proof -
  obtain act where e: "e = \<lparr>version = dict_get kwargs ''version'' (PInt 1),
        type = dict_get kwargs ''type'' (PStr ''command''),
        envelope_id = py_or (dict_get kwargs ''id'' PNone) (PStr (str_uuid4 rnd)),
        correlationId = py_or (dict_get kwargs ''correlationId'' PNone)
          (py_or (dict_get kwargs ''id'' PNone) (PStr (str_uuid4 rnd))),
        ts = py_or (dict_get kwargs ''ts'' PNone) (PStr (iso_now now)),
        action = act,
        status = dict_get kwargs ''status'' PNone,
        payload = py_or (dict_get kwargs ''payload'' PNone) (PDict []),
        meta = py_or (dict_get kwargs ''meta'' PNone) (PDict [])\<rparr>"
    using assms
    by (auto simp: MessageEnvelope_init_def Let_def split: list.splits option.splits)
  have "truthy (PStr (str_uuid4 rnd))" "truthy (PStr (iso_now now))"
    by (simp_all add: str_uuid4_nonempty iso_now_nonempty)
  then show ?thesis
    by (simp add: e py_or_truthy py_or_empty_dict)
qed

text \<open>
  Parsing regenerates the timestamp when the input has no \<open>ts\<close> key, and keeps a
  timestamp that is there and not empty.
\<close>

lemma from_dict_regenerates_ts:
  assumes "map_of data ''ts'' = None" and "from_dict rnd now data = Inr e"
  shows "ts e = PStr (iso_now now)"
  using assms
  by (auto simp: from_dict_def MessageEnvelope_init_def init_params_def dict_get_def py_or_def
        Let_def)

lemma from_dict_keeps_ts:
  assumes "map_of data ''ts'' = Some (PStr t)" and "t \<noteq> []"
    and "from_dict rnd now data = Inr e"
  shows "ts e = PStr t"
  using assms
  by (auto simp: from_dict_def MessageEnvelope_init_def init_params_def dict_get_def py_or_def
        Let_def)

text \<open>
  C8. Envelope round trip: for every envelope \<open>e\<close> that the constructor returns,
  parsing the serialised form (\<open>from_dict (to_dict e)\<close>) succeeds and gives back
  \<open>e\<close>, whatever the parser's own random bytes and clock are: version, type, id,
  correlationId, ts, action, status, payload and meta are all reproduced, so no id and no
  timestamp is regenerated. The serialised form has a \<open>status\<close> key exactly when
  the status is not \<open>None\<close>, so an absent status comes back absent.
\<close>

theorem envelope_round_trip:
  assumes "MessageEnvelope_init rnd now kwargs = Inr e"
  shows "from_dict rnd' now' (to_dict e) = Inr e
         \<and> (map_of (to_dict e) ''status'' = None) = (status e = PNone)"
proof -
  have "from_dict rnd' now' (to_dict e) = Inr e"
    using init_invariant [OF assms] by (intro from_dict_to_dict) simp_all
  moreover have "(map_of (to_dict e) ''status'' = None) = (status e = PNone)"
    by (simp add: to_dict_def Let_def)
  ultimately show ?thesis by simp
qed

theorem envelope_round_trip_witness:
  "MessageEnvelope_init 7 \<lparr>year = 2025, month = 11, day = 28, hour = 5, minute = 15, second = 37\<rparr>
       [(''action'', PStr ''device.restart''), (''id'', PStr ''tok1''),
        (''ts'', PStr ''2025-11-28T05:15:37Z'')]
     = Inr \<lparr>version = PInt 1, type = PStr ''command'', envelope_id = PStr ''tok1'',
            correlationId = PStr ''tok1'', ts = PStr ''2025-11-28T05:15:37Z'',
            action = PStr ''device.restart'', status = PNone, payload = PDict [],
            meta = PDict []\<rparr>
   \<and> from_dict 9 \<lparr>year = 2026, month = 1, day = 2, hour = 3, minute = 4, second = 5\<rparr>
       (to_dict \<lparr>version = PInt 1, type = PStr ''command'', envelope_id = PStr ''tok1'',
            correlationId = PStr ''tok1'', ts = PStr ''2025-11-28T05:15:37Z'',
            action = PStr ''device.restart'', status = PNone, payload = PDict [],
            meta = PDict []\<rparr>)
     = Inr \<lparr>version = PInt 1, type = PStr ''command'', envelope_id = PStr ''tok1'',
            correlationId = PStr ''tok1'', ts = PStr ''2025-11-28T05:15:37Z'',
            action = PStr ''device.restart'', status = PNone, payload = PDict [],
            meta = PDict []\<rparr>"
  (is "?i = Inr ?e \<and> ?p = Inr ?e")
proof -
  have i: "?i = Inr ?e"
    by (simp add: MessageEnvelope_init_def init_params_def dict_get_def py_or_def Let_def)
  from envelope_round_trip [OF i] have "?p = Inr ?e" by blast
  with i show ?thesis by blast
qed

section \<open>Properties of the identity pool\<close>

lemma sort_hd_least:
  assumes "sort xs = y # ys"
  shows "y \<in> set xs \<and> (\<forall>x\<in>set xs. y \<le> x)"
proof -
  have "set (sort xs) = set xs" by simp
  moreover have "sorted (sort xs)" by simp
  ultimately show ?thesis using assms by (metis list.set_intros(1) set_ConsD sorted_simps(2) order_refl)
qed

lemma select_first_unassigned_Some:
  assumes "fault d = None" and "map_of (tables d) ''deviceids'' = Some rows"
    and "unassigned rows \<noteq> {}"
  shows "\<exists>k. select_first_unassigned d = Inr (Some k) \<and> k \<in> unassigned rows
            \<and> (\<forall>k'\<in>unassigned rows. k \<le> k')"
proof -
  let ?ks = "map device_id (filter (\<lambda>r. device_uuid r = PNone) rows)"
  have s: "set ?ks = unassigned rows" by (simp add: unassigned_def)
  with assms(3) have "sort ?ks \<noteq> []" by (metis set_empty set_sort)
  then obtain k ks where k: "sort ?ks = k # ks" by (cases "sort ?ks") auto
  have "k \<in> set ?ks \<and> (\<forall>x\<in>set ?ks. k \<le> x)" by (rule sort_hd_least [OF k])
  then have "k \<in> unassigned rows \<and> (\<forall>k'\<in>unassigned rows. k \<le> k')"
    unfolding s by blast
  moreover have "select_first_unassigned d = Inr (Some k)"
    using assms(1,2) k by (simp add: select_first_unassigned_def db_rows_def)
  ultimately show ?thesis by blast
qed

lemma select_first_unassigned_None:
  assumes "fault d = None" and "map_of (tables d) ''deviceids'' = Some rows"
    and "unassigned rows = {}"
  shows "select_first_unassigned d = Inr None"
proof -
  have "filter (\<lambda>r. device_uuid r = PNone) rows = []"
    using assms(3) by (simp add: unassigned_def)
  then show ?thesis using assms(1,2) by (simp add: select_first_unassigned_def db_rows_def)
qed

lemma assign_device_id_bound:
  assumes "fault d = None" and "map_of (tables d) ''deviceids'' = Some rows"
    and "select_first_unassigned d = Inr (Some k)"
  shows "assign_device_id m d =
           (Inr k, d\<lparr>tables := AList.update ''deviceids'' (bind_rows m k rows) (tables d)\<rparr>)"
  using assms by (simp add: assign_device_id_def update_device_uuid_def db_rows_def db_commit_def)

text \<open>
  C5. Whenever the table \<open>deviceids\<close> has an unassigned key (and the store answers),
  \<open>assign_device_id\<close> with a string token returns the smallest unassigned key in the
  order of strings, sets \<open>device_uuid\<close> to the token in the records of that key, and
  leaves every other record, and every other table, as it was.
\<close>

theorem claim_binds_lowest_unassigned:
  assumes "fault d = None" and "map_of (tables d) ''deviceids'' = Some rows"
    and "unassigned rows \<noteq> {}"
  shows "\<exists>k. k \<in> unassigned rows \<and> (\<forall>k'\<in>unassigned rows. k \<le> k')
           \<and> assign_device_id (PStr token) d =
               (Inr k,
                d\<lparr>tables := AList.update ''deviceids''
                   (map (\<lambda>r. if device_id r = k then r\<lparr>device_uuid := PStr token\<rparr> else r) rows)
                   (tables d)\<rparr>)"
proof -
  obtain k where k: "select_first_unassigned d = Inr (Some k)" "k \<in> unassigned rows"
      "\<forall>k'\<in>unassigned rows. k \<le> k'"
    using select_first_unassigned_Some [OF assms] by blast
  show ?thesis
    using k(2,3) assign_device_id_bound [OF assms(1,2) k(1), of "PStr token"]
    by (auto simp: bind_rows_def)
qed

theorem claim_binds_lowest_unassigned_witness:
  "fault \<lparr>tables = [(''deviceids'',
        [\<lparr>device_id = ''simdevice0003'', device_uuid = PNone\<rparr>,
         \<lparr>device_id = ''simdevice0001'', device_uuid = PStr ''abc''\<rparr>,
         \<lparr>device_id = ''simdevice0002'', device_uuid = PNone\<rparr>])], fault = None\<rparr> = None
   \<and> unassigned
        [\<lparr>device_id = ''simdevice0003'', device_uuid = PNone\<rparr>,
         \<lparr>device_id = ''simdevice0001'', device_uuid = PStr ''abc''\<rparr>,
         \<lparr>device_id = ''simdevice0002'', device_uuid = PNone\<rparr>] \<noteq> {}
   \<and> assign_device_id (PStr ''def'')
        \<lparr>tables = [(''deviceids'',
          [\<lparr>device_id = ''simdevice0003'', device_uuid = PNone\<rparr>,
           \<lparr>device_id = ''simdevice0001'', device_uuid = PStr ''abc''\<rparr>,
           \<lparr>device_id = ''simdevice0002'', device_uuid = PNone\<rparr>])], fault = None\<rparr>
      = (Inr ''simdevice0002'',
         \<lparr>tables = [(''deviceids'',
          [\<lparr>device_id = ''simdevice0003'', device_uuid = PNone\<rparr>,
           \<lparr>device_id = ''simdevice0001'', device_uuid = PStr ''abc''\<rparr>,
           \<lparr>device_id = ''simdevice0002'', device_uuid = PStr ''def''\<rparr>])], fault = None\<rparr>)"
  (is "?f \<and> ?u \<and> ?r")
proof -
  let ?rows = "[\<lparr>device_id = ''simdevice0003'', device_uuid = PNone\<rparr>,
         \<lparr>device_id = ''simdevice0001'', device_uuid = PStr ''abc''\<rparr>,
         \<lparr>device_id = ''simdevice0002'', device_uuid = PNone\<rparr>]"
  let ?d = "\<lparr>tables = [(''deviceids'', ?rows)], fault = None\<rparr>"
  have f: "fault ?d = None" by simp
  have t: "map_of (tables ?d) ''deviceids'' = Some ?rows" by simp
  have us: "unassigned ?rows = {''simdevice0003'', ''simdevice0002''}"
    by (simp add: unassigned_def)
  then have u: "unassigned ?rows \<noteq> {}" by simp
  obtain k where k: "k \<in> unassigned ?rows" "\<forall>k'\<in>unassigned ?rows. k \<le> k'"
     and a: "assign_device_id (PStr ''def'') ?d =
               (Inr k, ?d\<lparr>tables := AList.update ''deviceids''
                   (map (\<lambda>r. if device_id r = k then r\<lparr>device_uuid := PStr ''def''\<rparr> else r) ?rows)
                   (tables ?d)\<rparr>)"
    using claim_binds_lowest_unassigned [OF f t u, of "''def''"] by blast
  from k have "k = ''simdevice0002''" unfolding us by auto
  with a have ?r by simp
  with f u show ?thesis by blast
qed

text \<open>
  C6. Whenever the table \<open>deviceids\<close> has no unassigned key (and the store answers),
  \<open>assign_device_id\<close> raises \<open>HTTPException\<close> with status 404 (the code's form
  of NotFound / PoolExhausted) and the store is exactly as before: no record is created,
  deleted or rebound.
\<close>

theorem claim_exhausted_unchanged:
  assumes "fault d = None" and "map_of (tables d) ''deviceids'' = Some rows"
    and "unassigned rows = {}"
  shows "assign_device_id message_id d =
           (Inl (HTTPException 404 ''No available device IDs to assign''), d)"
  using select_first_unassigned_None [OF assms] by (simp add: assign_device_id_def)

theorem claim_exhausted_unchanged_witness:
  "assign_device_id (PStr ''tok1'')
     \<lparr>tables = [(''deviceids'',
        [\<lparr>device_id = ''simdevice0001'', device_uuid = PStr ''abc''\<rparr>])], fault = None\<rparr>
   = (Inl (HTTPException 404 ''No available device IDs to assign''),
      \<lparr>tables = [(''deviceids'',
        [\<lparr>device_id = ''simdevice0001'', device_uuid = PStr ''abc''\<rparr>])], fault = None\<rparr>)"
  by (rule claim_exhausted_unchanged) (auto simp: unassigned_def)

lemma unassigned_bind_rows:
  "m \<noteq> PNone \<Longrightarrow> unassigned (bind_rows m k rows) = unassigned rows - {k}"
  by (induction rows) (auto simp: unassigned_def bind_rows_def)

lemma finite_unassigned: "finite (unassigned rows)"
  by (simp add: unassigned_def)

lemma map_of_update_same: "map_of (AList.update k v al) k = Some v"
  by (simp add: update_conv')

text \<open>A task that runs alone, step after step, is \<open>assign_device_id\<close>.\<close>

lemma task_alone:
  "(case task_step (Start m) d of (t1, d1) \<Rightarrow>
      case task_step t1 d1 of (t2, d2) \<Rightarrow> task_step t2 d2)
   = (Finished (fst (assign_device_id m d)), snd (assign_device_id m d))"
  by (simp add: assign_device_id_def split: sum.splits option.splits)

text \<open>
  C1, as the code has it. \<open>N\<close> calls of \<open>assign_device_id\<close> with string tokens
  that run one after another, on a table with at least \<open>N\<close> unassigned keys, all
  succeed, and the keys they return are pairwise distinct unassigned keys of the table.
\<close>

theorem sequential_claims_distinct:
  assumes "fault d = None" and "map_of (tables d) ''deviceids'' = Some rows"
    and "length toks \<le> card (unassigned rows)"
  shows "\<exists>ks. fst (assign_all (map PStr toks) d) = map Inr ks \<and> distinct ks
              \<and> set ks \<subseteq> unassigned rows"
  using assms
proof (induction toks arbitrary: d rows)
  case Nil
  then show ?case by simp
next
  case (Cons t toks)
  from Cons.prems(3) have ne: "unassigned rows \<noteq> {}" by auto
  obtain k where k: "select_first_unassigned d = Inr (Some k)" "k \<in> unassigned rows"
    using select_first_unassigned_Some [OF Cons.prems(1,2) ne] by blast
  let ?rows' = "bind_rows (PStr t) k rows"
  let ?d' = "d\<lparr>tables := AList.update ''deviceids'' ?rows' (tables d)\<rparr>"
  have a: "assign_device_id (PStr t) d = (Inr k, ?d')"
    by (rule assign_device_id_bound [OF Cons.prems(1,2) k(1)])
  have u: "unassigned ?rows' = unassigned rows - {k}"
    by (simp add: unassigned_bind_rows)
  have c: "length toks \<le> card (unassigned ?rows')"
    using Cons.prems(3) k(2) by (simp add: u finite_unassigned)
  have f: "fault ?d' = None" using Cons.prems(1) by simp
  have t: "map_of (tables ?d') ''deviceids'' = Some ?rows'" by (simp add: map_of_update_same)
  obtain ks where ks: "fst (assign_all (map PStr toks) ?d') = map Inr ks" "distinct ks"
      "set ks \<subseteq> unassigned ?rows'"
    using Cons.IH [OF f t c] by blast
  have "fst (assign_all (map PStr (t # toks)) d) = map Inr (k # ks)"
    using a ks(1) by (cases "assign_all (map PStr toks) ?d'") simp
  moreover have "distinct (k # ks)" using ks(2,3) u by auto
  moreover have "set (k # ks) \<subseteq> unassigned rows" using ks(3) u k(2) by auto
  ultimately show ?case by blast
qed

theorem sequential_claims_distinct_witness:
  "\<exists>ks. fst (assign_all (map PStr [''abc'', ''def''])
        \<lparr>tables = [(''deviceids'',
          [\<lparr>device_id = ''simdevice0001'', device_uuid = PNone\<rparr>,
           \<lparr>device_id = ''simdevice0002'', device_uuid = PNone\<rparr>,
           \<lparr>device_id = ''simdevice0003'', device_uuid = PNone\<rparr>])], fault = None\<rparr>)
         = map Inr ks \<and> distinct ks
       \<and> set ks \<subseteq> unassigned
          [\<lparr>device_id = ''simdevice0001'', device_uuid = PNone\<rparr>,
           \<lparr>device_id = ''simdevice0002'', device_uuid = PNone\<rparr>,
           \<lparr>device_id = ''simdevice0003'', device_uuid = PNone\<rparr>]"
proof (rule sequential_claims_distinct)
  let ?rows = "[\<lparr>device_id = ''simdevice0001'', device_uuid = PNone\<rparr>,
           \<lparr>device_id = ''simdevice0002'', device_uuid = PNone\<rparr>,
           \<lparr>device_id = ''simdevice0003'', device_uuid = PNone\<rparr>]"
  have "unassigned ?rows = {''simdevice0001'', ''simdevice0002'', ''simdevice0003''}"
    by (simp add: unassigned_def)
  then show "length [''abc'', ''def''] \<le> card (unassigned ?rows)" by simp
qed simp_all

text \<open>
  C1 fails for calls that overlap. Two calls on a pool with two unassigned keys, the
  second selecting before the first has updated (select, select, then update and commit
  of the first, update and commit of the second): both return \<open>simdevice0001\<close>, the
  record ends bound to the second token and \<open>simdevice0002\<close> stays unassigned. Both
  selects precede every write, so the outcome does not depend on when an update becomes
  visible to the other session.
\<close>

theorem concurrent_claims_collide:
  "run_schedule [0, 1, 0, 0, 1, 1] [Start (PStr ''tokA''), Start (PStr ''tokB'')]
    \<lparr>tables = [(''deviceids'',
         [\<lparr>device_id = ''simdevice0001'', device_uuid = PNone\<rparr>,
          \<lparr>device_id = ''simdevice0002'', device_uuid = PNone\<rparr>])], fault = None\<rparr>
  = ([Finished (Inr ''simdevice0001''), Finished (Inr ''simdevice0001'')],
    \<lparr>tables = [(''deviceids'',
         [\<lparr>device_id = ''simdevice0001'', device_uuid = PStr ''tokB''\<rparr>,
          \<lparr>device_id = ''simdevice0002'', device_uuid = PNone\<rparr>])], fault = None\<rparr>)"
  by (simp add: select_first_unassigned_def update_device_uuid_def db_rows_def db_commit_def bind_rows_def)

section \<open>Properties of the connection registry\<close>

lemma send_json_keeps:
  "send_json ws c w = Inr w' \<Longrightarrow>
     send_error w' = send_error w \<and> active_connections w' = active_connections w
     \<and> sent w' = sent w @ [(ws, c)] \<and> w' = w\<lparr>sent := sent w @ [(ws, c)]\<rparr>"
  by (auto simp: send_json_def split: option.splits)

lemma send_json_Inl: "(\<exists>e. send_json ws c w = Inl e) = (map_of (send_error w) ws \<noteq> None)"
  by (auto simp: send_json_def split: option.splits)

lemma broadcast_loop_eq:
  "broadcast_loop items c w =
     w\<lparr>active_connections :=
          fold (\<lambda>(u, ws) acc. if map_of (send_error w) ws = None then acc else AList.delete u acc)
            items (active_connections w),
        sent := sent w @ map (\<lambda>(u, ws). (ws, c))
                  (filter (\<lambda>(u, ws). map_of (send_error w) ws = None) items)\<rparr>"
proof (induction items arbitrary: w)
  case Nil
  show ?case by simp
next
  case (Cons p items)
  obtain u ws where p: "p = (u, ws)" by (cases p)
  show ?case
  proof (cases "map_of (send_error w) ws")
    case None
    then have s: "send_json ws c w = Inr (w\<lparr>sent := sent w @ [(ws, c)]\<rparr>)"
      by (simp add: send_json_def)
    show ?thesis by (simp add: p s None Cons.IH)
  next
    case (Some e)
    then have s: "send_json ws c w = Inl e" by (simp add: send_json_def)
    show ?thesis by (simp add: p s Some Cons.IH ConnectionManager_disconnect_def)
  qed
qed

lemma fold_delete_one:
  assumes "\<forall>(u, ws)\<in>set items. map_of errs ws \<noteq> None \<longrightarrow> u = bad"
  shows "fold (\<lambda>(u, ws) acc. if map_of errs ws = None then acc else AList.delete u acc) items acc
         = (if \<exists>(u, ws)\<in>set items. map_of errs ws \<noteq> None then AList.delete bad acc else acc)"
  using assms
proof (induction items arbitrary: acc)
  case Nil
  show ?case by simp
next
  case (Cons p items)
  obtain u ws where p: "p = (u, ws)" by (cases p)
  from Cons.prems have rest: "\<forall>(u, ws)\<in>set items. map_of errs ws \<noteq> None \<longrightarrow> u = bad" by simp
  show ?case
  proof (cases "map_of errs ws")
    case None
    then show ?thesis using Cons.IH [OF rest] by (simp add: p)
  next
    case (Some e)
    with Cons.prems have "u = bad" by (simp add: p)
    with Some show ?thesis using Cons.IH [OF rest] by (simp add: p delete_idem)
  qed
qed

lemma length_filter_other_keys:
  "distinct (map fst xs) \<Longrightarrow> (k, v) \<in> set xs \<Longrightarrow>
     length (filter (\<lambda>(u, ws). u \<noteq> k) xs) = length xs - 1"
proof (induction xs)
  case Nil
  then show ?case by simp
next
  case (Cons p xs)
  obtain u ws where p: "p = (u, ws)" by (cases p)
  show ?case
  proof (cases "u = k")
    case True
    with Cons.prems p have "k \<notin> fst ` set xs" by simp
    then have "filter (\<lambda>(u, ws). u \<noteq> k) xs = xs"
      by (intro filter_True) force
    with True p show ?thesis by simp
  next
    case False
    with Cons.prems p have "(k, v) \<in> set xs" "distinct (map fst xs)" by auto
    with Cons.IH have "length (filter (\<lambda>(u, ws). u \<noteq> k) xs) = length xs - 1" by simp
    moreover from \<open>(k, v) \<in> set xs\<close> have "xs \<noteq> []" by auto
    ultimately show ?thesis using False p by (cases xs) simp_all
  qed
qed

text \<open>
  C7. The registry holds each key once. When the send raises on the channel of exactly one
  registered key \<open>bad\<close> and on no other registered channel, \<open>POST /command/broadcast\<close>
  returns its response \<open>{"status": "broadcasted"}\<close> and raises nothing; the message is
  delivered once, in registry order, on the channel of every other key, which are all
  but one of the registered keys; \<open>bad\<close> is removed from the registry and every other
  entry stays.
\<close>

theorem broadcast_one_failure:
  assumes "distinct (map fst (active_connections w))"
    and "map_of (active_connections w) bad = Some wsb"
    and "map_of (send_error w) wsb = Some e"
    and "\<forall>(u, ws)\<in>set (active_connections w). u \<noteq> bad \<longrightarrow> map_of (send_error w) ws = None"
  shows "broadcast_command body w =
           (Inr (JSONResponse (PDict [(''status'', PStr ''broadcasted'')])),
            w\<lparr>active_connections := AList.delete bad (active_connections w),
              sent := sent w @ map (\<lambda>(u, ws). (ws, body))
                        (filter (\<lambda>(u, ws). u \<noteq> bad) (active_connections w))\<rparr>)
         \<and> length (filter (\<lambda>(u, ws). u \<noteq> bad) (active_connections w))
             = length (active_connections w) - 1"
proof -
  let ?conns = "active_connections w"
  have mem: "(bad, wsb) \<in> set ?conns" using assms(2) by (rule map_of_SomeD)
  have key: "\<And>u ws. (u, ws) \<in> set ?conns \<Longrightarrow> (map_of (send_error w) ws = None) = (u \<noteq> bad)"
  proof -
    fix u ws assume m: "(u, ws) \<in> set ?conns"
    show "(map_of (send_error w) ws = None) = (u \<noteq> bad)"
    proof (cases "u = bad")
      case True
      with m assms(1,2) have "ws = wsb" by (metis map_of_is_SomeI option.inject)
      with True assms(3) show ?thesis by simp
    next
      case False
      with m assms(4) show ?thesis by auto
    qed
  qed
  have f: "filter (\<lambda>(u, ws). map_of (send_error w) ws = None) ?conns
           = filter (\<lambda>(u, ws). u \<noteq> bad) ?conns"
    by (rule filter_cong) (auto simp: key)
  have only: "\<forall>(u, ws)\<in>set ?conns. map_of (send_error w) ws \<noteq> None \<longrightarrow> u = bad"
  proof (clarify)
    fix u ws y
    assume "(u, ws) \<in> set ?conns" and "map_of (send_error w) ws = Some y"
    with key [of u ws] show "u = bad" by simp
  qed
  have some: "\<exists>(u, ws)\<in>set ?conns. map_of (send_error w) ws \<noteq> None"
    using mem assms(3) by force
  have d: "fold (\<lambda>(u, ws) acc. if map_of (send_error w) ws = None then acc else AList.delete u acc)
             ?conns ?conns = AList.delete bad ?conns"
    using fold_delete_one [OF only, of ?conns] some by simp
  have "ConnectionManager_broadcast body w =
          w\<lparr>active_connections := AList.delete bad ?conns,
            sent := sent w @ map (\<lambda>(u, ws). (ws, body)) (filter (\<lambda>(u, ws). u \<noteq> bad) ?conns)\<rparr>"
    unfolding ConnectionManager_broadcast_def broadcast_loop_eq d f ..
  then show ?thesis
    using length_filter_other_keys [OF assms(1) mem] by (simp add: broadcast_command_def)
qed

theorem broadcast_one_failure_witness:
  "broadcast_command (PDict [(''action'', PStr ''start'')])
     \<lparr>active_connections = [(''dev-a'', 1), (''dev-b'', 2), (''dev-c'', 3)],
      sent = [],
      send_error = [(2, OtherException ''connection closed'')],
      closes = [],
      store = \<lparr>tables = [], fault = None\<rparr>\<rparr>
   = (Inr (JSONResponse (PDict [(''status'', PStr ''broadcasted'')])),
      \<lparr>active_connections = [(''dev-a'', 1), (''dev-c'', 3)],
       sent = [(1, PDict [(''action'', PStr ''start'')]), (3, PDict [(''action'', PStr ''start'')])],
       send_error = [(2, OtherException ''connection closed'')],
       closes = [],
       store = \<lparr>tables = [], fault = None\<rparr>\<rparr>)"
  using broadcast_one_failure [of
      "\<lparr>active_connections = [(''dev-a'', 1), (''dev-b'', 2), (''dev-c'', 3)],
        sent = [], send_error = [(2, OtherException ''connection closed'')],
        closes = [], store = \<lparr>tables = [], fault = None\<rparr>\<rparr>"
      "''dev-b''" 2 "OtherException ''connection closed''" "PDict [(''action'', PStr ''start'')]"]
  by simp

text \<open>
  C10. For a key that is not in the registry, \<open>POST /command/{key}\<close> answers
  \<open>{"status": "sent", "uuid": key}\<close> with status 200 and raises nothing, and the state is
  what it was: nothing is delivered on any channel and the registry is unchanged.
\<close>

theorem send_to_unregistered_key:
  assumes "map_of (active_connections w) uuid = None"
  shows "send_command uuid body w =
           (Inr (JSONResponse (PDict [(''status'', PStr ''sent''), (''uuid'', PStr uuid)])), w)"
  using assms by (simp add: send_command_def ConnectionManager_send_command_def)

theorem send_to_unregistered_key_witness:
  "send_command ''ghost'' (PDict [(''action'', PStr ''start'')])
     \<lparr>active_connections = [(''dev-a'', 1)], sent = [], send_error = [], closes = [],
      store = \<lparr>tables = [], fault = None\<rparr>\<rparr>
   = (Inr (JSONResponse (PDict [(''status'', PStr ''sent''), (''uuid'', PStr ''ghost'')])),
      \<lparr>active_connections = [(''dev-a'', 1)], sent = [], send_error = [], closes = [],
       store = \<lparr>tables = [], fault = None\<rparr>\<rparr>)"
  by (rule send_to_unregistered_key) simp

section \<open>Properties of the delete endpoints\<close>

text \<open>No outcome of \<open>delete_device\<close> has the status 404.\<close>

lemma delete_device_never_404: "response_status (fst (delete_device dev st)) \<noteq> 404"
  by (cases st) (simp add: delete_device_def delete_device_credential_def JSONResponse_def
        split: option.splits sum.splits)

text \<open>
  C9 fails on the code. The credential deletion succeeds and the table \<open>device_ids\<close>
  holds no record of the key: the \<open>HTTPException\<close> with status 404 is raised inside the
  \<open>try\<close> whose \<open>except Exception\<close> catches it, and the endpoint answers 500 with
  \<open>Database deletion error\<close>.
\<close>

theorem delete_device_missing_record_is_500:
  "delete_device ''simdevice0009''
     (\<lparr>delete_error = [], delete_calls = []\<rparr>,
      \<lparr>tables = [(''device_ids'', [\<lparr>device_id = ''simdevice0001'', device_uuid = PNone\<rparr>])],
       fault = None\<rparr>)
   = (Inl (HTTPException 500 ''Database deletion error''),
      (\<lparr>delete_error = [], delete_calls = [''simdevice0009'']\<rparr>,
       \<lparr>tables = [(''device_ids'', [\<lparr>device_id = ''simdevice0001'', device_uuid = PNone\<rparr>])],
        fault = None\<rparr>))"
  by (simp add: delete_device_def delete_device_credential_def delete_device_try_def
        delete_where_device_id_def db_rows_def db_rollback_def)

lemma delete_credentials_calls:
  "delete_credentials devs h = h\<lparr>delete_calls := delete_calls h @ devs\<rparr>"
  by (induction devs arbitrary: h) (simp_all add: delete_device_credential_def)

lemma fallback_device_ids_length: "length fallback_device_ids = 1000"
  by (simp add: fallback_device_ids_def)

lemma fallback_device_ids_hd: "hd fallback_device_ids = ''simdevice0001''"
proof -
  have ne: "[0..<1000::nat] \<noteq> []" by (simp only: upt_eq_Nil_conv) simp
  have "hd fallback_device_ids = ''simdevice'' @ fmt_04d (hd [0..<1000] + 1)"
    unfolding fallback_device_ids_def by (rule hd_map [OF ne])
  also have "hd [0..<1000::nat] = 0" by (rule hd_upt) simp
  finally show ?thesis by (simp add: fmt_04d_def decimal.simps decdigit_def numeral_3_eq_3)
qed

lemma fallback_device_ids_last: "last fallback_device_ids = ''simdevice1000''"
proof -
  have ne: "[0..<1000::nat] \<noteq> []" by (simp only: upt_eq_Nil_conv) simp
  have "last fallback_device_ids = ''simdevice'' @ fmt_04d (last [0..<1000] + 1)"
    unfolding fallback_device_ids_def by (rule last_map [OF ne])
  also have "last [0..<1000::nat] = 1000 - 1" by (rule last_upt) simp
  finally show ?thesis by (simp add: fmt_04d_def decimal.simps decdigit_def)
qed

text \<open>
  C4, as the code has it. When the store answers, \<open>delete_all_devices\<close> attempts the
  credential deletion for exactly the keys of the enumerated records, in their order, when
  there is at least one record, and for the 1000 keys \<open>simdevice0001\<close> to
  \<open>simdevice1000\<close> when there is none; it then empties the table and answers
  \<open>{"status": "all devices deleted"}\<close>, whatever the single deletions raised.
\<close>

theorem delete_all_devices_attempts:
  assumes "fault d = None" and "map_of (tables d) DeviceId_table = Some rows"
  shows "delete_all_devices DeviceId_table (h, d) =
           (Inr (JSONResponse (PDict [(''status'', PStr ''all devices deleted'')])),
            (h\<lparr>delete_calls := delete_calls h
                 @ (if rows = [] then fallback_device_ids else map device_id rows)\<rparr>,
             d\<lparr>tables := AList.update DeviceId_table [] (tables d)\<rparr>))"
  using assms
  by (simp add: delete_all_devices_def db_rows_def delete_all_rows_def db_commit_def
        delete_credentials_calls Let_def)

theorem delete_all_devices_attempts_witness:
  "delete_all_devices ''deviceids''
     (\<lparr>delete_error = [(''simdevice0001'', OtherException ''hub error'')], delete_calls = []\<rparr>,
      \<lparr>tables = [(''deviceids'',
          [\<lparr>device_id = ''simdevice0001'', device_uuid = PNone\<rparr>,
           \<lparr>device_id = ''simdevice0002'', device_uuid = PStr ''abc''\<rparr>])], fault = None\<rparr>)
   = (Inr (JSONResponse (PDict [(''status'', PStr ''all devices deleted'')])),
      (\<lparr>delete_error = [(''simdevice0001'', OtherException ''hub error'')],
        delete_calls = [''simdevice0001'', ''simdevice0002'']\<rparr>,
       \<lparr>tables = [(''deviceids'', [])], fault = None\<rparr>))"
  using delete_all_devices_attempts [of
      "\<lparr>tables = [(''deviceids'',
          [\<lparr>device_id = ''simdevice0001'', device_uuid = PNone\<rparr>,
           \<lparr>device_id = ''simdevice0002'', device_uuid = PStr ''abc''\<rparr>])], fault = None\<rparr>"
      "''deviceids''"
      "[\<lparr>device_id = ''simdevice0001'', device_uuid = PNone\<rparr>,
        \<lparr>device_id = ''simdevice0002'', device_uuid = PStr ''abc''\<rparr>]"
      "\<lparr>delete_error = [(''simdevice0001'', OtherException ''hub error'')], delete_calls = []\<rparr>"]
  by simp

text \<open>
  C4 fails as stated: on an empty table the credential deletion is attempted for 1000 keys,
  from \<open>simdevice0001\<close> to \<open>simdevice1000\<close>.
\<close>

theorem delete_all_on_empty_store_invents:
  "delete_calls (fst (snd (delete_all_devices ''deviceids''
      (\<lparr>delete_error = [], delete_calls = []\<rparr>,
       \<lparr>tables = [(''deviceids'', [])], fault = None\<rparr>)))) = fallback_device_ids
   \<and> length fallback_device_ids = 1000
   \<and> hd fallback_device_ids = ''simdevice0001''
   \<and> last fallback_device_ids = ''simdevice1000''"
  by (simp add: delete_all_devices_def db_rows_def delete_all_rows_def db_commit_def
        delete_credentials_calls Let_def fallback_device_ids_length fallback_device_ids_hd
        fallback_device_ids_last)

section \<open>Properties of the session handler\<close>

text \<open>
  Both error clauses of the handler call the constructor with a keyword it does not have:
  whatever the claim raised, the constructor raises \<open>TypeError\<close> and no envelope is
  built or sent.
\<close>

lemma send_json_registry:
  "send_json ws c w = Inr w' \<Longrightarrow> active_connections w' = active_connections w"
  by (auto simp: send_json_def split: option.splits)

lemma on_http_exception_raises:
  "on_http_exception ws inp data code detail w =
     (Raise (TypeError ''__init__() got an unexpected keyword argument correlation_id''), w)"
  by (simp add: on_http_exception_def MessageEnvelope_init_def init_params_def)

lemma on_exception_raises:
  "on_exception ws inp data e w =
     (Raise (TypeError ''__init__() got an unexpected keyword argument correlation_id''), w)"
  by (simp add: on_exception_def MessageEnvelope_init_def init_params_def)

text \<open>
  A request whose claim finds no unassigned key: the turn of the loop ends with the
  \<open>TypeError\<close>, for every connection, message id and state of the channels.
\<close>

lemma request_on_exhausted_pool:
  assumes "fault (store w) = None" and "map_of (tables (store w)) ''deviceids'' = Some rows"
    and "unassigned rows = {}" and "map_of data ''type'' = Some (PStr ''request'')"
  shows "handle_message cfg ws inp (PDict data) w =
           (Raise (TypeError ''__init__() got an unexpected keyword argument correlation_id''), w)"
proof -
  have "filter (\<lambda>r. device_uuid r = PNone) rows = []"
    using assms(3) by (simp add: unassigned_def)
  then have "assign_device_id (dict_get data ''id'' (PStr [])) (store w)
        = (Inl (HTTPException 404 ''No available device IDs to assign''), store w)"
    using assms(1,2) by (simp add: assign_device_id_def select_first_unassigned_def db_rows_def)
  then show ?thesis
    using assms(4) by (simp add: handle_message_def handle_request_def on_http_exception_raises)
qed

text \<open>
  The handler changes the registry only on connecting and in the clause
  \<open>except WebSocketDisconnect\<close>. So whenever an exception leaves the handler, its key is
  still registered.
\<close>

lemma send_config_registry:
  "send_config cfg ws inp data k w = (c, w') \<Longrightarrow> active_connections w' = active_connections w"
  by (auto simp: send_config_def split: sum.splits dest: send_json_registry)

lemma handle_report_registry:
  "handle_report ws inp data w = (c, w') \<Longrightarrow> active_connections w' = active_connections w"
  by (auto simp: handle_report_def split: sum.splits dest: send_json_registry)

lemma handle_request_registry:
  "handle_request cfg ws inp data w = (c, w') \<Longrightarrow> active_connections w' = active_connections w"
  by (auto simp: handle_request_def on_http_exception_raises on_exception_raises
        split: prod.splits sum.splits exn.splits dest: send_config_registry)

lemma handle_message_registry:
  "handle_message cfg ws inp msg w = (c, w') \<Longrightarrow> active_connections w' = active_connections w"
  by (auto simp: handle_message_def split: pyval.splits if_splits
        dest: handle_request_registry handle_report_registry)

lemma session_loop_raised:
  "session_loop cfg uuid ws script w = (Raised e, w') \<Longrightarrow>
     active_connections w' = active_connections w"
proof (induction script arbitrary: w)
  case Nil
  then show ?case by simp
next
  case (Cons inp script)
  show ?case
  proof (cases "received inp")
    case (Inl x)
    with Cons.prems show ?thesis by (auto simp: leave_try_def split: if_splits)
  next
    case (Inr msg)
    obtain c w1 where h: "handle_message cfg ws inp msg w = (c, w1)"
      by (cases "handle_message cfg ws inp msg w")
    have r: "active_connections w1 = active_connections w"
      by (rule handle_message_registry [OF h])
    show ?thesis
    proof (cases c)
      case Continue
      with Cons.prems Inr h have "session_loop cfg uuid ws script w1 = (Raised e, w')" by simp
      from Cons.IH [OF this] r show ?thesis by simp
    next
      case Break
      with Cons.prems Inr h show ?thesis by simp
    next
      case (Raise x)
      with Cons.prems Inr h r show ?thesis by (auto simp: leave_try_def split: if_splits)
    qed
  qed
qed

lemma raised_leaves_key_registered:
  assumes "websocket_endpoint cfg req uuid ws script w = (Raised e, w')"
  shows "map_of (active_connections w') uuid = Some ws"
proof -
  from assms have "session_loop cfg uuid ws script (ConnectionManager_connect uuid ws w) = (Raised e, w')"
    by (auto simp: websocket_endpoint_def split: if_splits)
  from session_loop_raised [OF this] show ?thesis
    by (simp add: ConnectionManager_connect_def update_conv')
qed

lemma disconnect_unregisters:
  "map_of (active_connections (ConnectionManager_disconnect uuid w)) uuid = None"
  by (simp add: ConnectionManager_disconnect_def delete_conv')

lemmas handler_defs = websocket_endpoint_def ConnectionManager_connect_def
  ConnectionManager_disconnect_def leave_try_def handle_message_def handle_request_def
  handle_report_def on_http_exception_def on_exception_def send_config_def send_json_def
  assign_device_id_def select_first_unassigned_def update_device_uuid_def db_rows_def
  db_commit_def bind_rows_def MessageEnvelope_init_def init_params_def dict_get_def
  generate_iothub_connection_string_def split_0_def split_1_def Let_def

text \<open>An explicit disconnect is cleaned up: the key is no longer registered.\<close>

lemma disconnect_is_cleaned_up:
  "websocket_endpoint
     \<lparr>API_BEARER_TOKEN = None, IOT_CONNECTION_STRING = None, IOT_PRIMARY_KEY_DEVICE = None\<rparr>
     \<lparr>authorization = None, token_param = None\<rparr> ''conn1'' 7
     [\<lparr>received = Inl WebSocketDisconnect, urandom = [], uuid4_bytes = 0,
       utcnow = \<lparr>year = 2025, month = 11, day = 28, hour = 5, minute = 15, second = 37\<rparr>\<rparr>]
     \<lparr>active_connections = [], sent = [], send_error = [], closes = [],
      store = \<lparr>tables = [], fault = None\<rparr>\<rparr>
   = (Returned,
      \<lparr>active_connections = [], sent = [], send_error = [], closes = [],
       store = \<lparr>tables = [], fault = None\<rparr>\<rparr>)"
  by (simp add: handler_defs)

text \<open>
  C3 fails on the code. The pool has no unassigned key; the connection sends a request
  with id \<open>tok1\<close> and then a report. The claim raises \<open>HTTPException\<close> with status 404,
  the error clause calls the constructor with the keyword \<open>correlation_id\<close>, and the
  \<open>TypeError\<close> leaves the handler: nothing is sent on the channel (no envelope of type
  error with correlationId \<open>tok1\<close>), the report that follows is never processed, and the
  key stays in the registry.
\<close>

theorem claim_failure_sends_no_error_envelope:
  "websocket_endpoint
     \<lparr>API_BEARER_TOKEN = None,
      IOT_CONNECTION_STRING = Some ''HostName=hub.example.net;SharedAccessKeyName=owner'',
      IOT_PRIMARY_KEY_DEVICE = Some ''key''\<rparr>
     \<lparr>authorization = None, token_param = None\<rparr> ''conn1'' 7
     [\<lparr>received = Inr (PDict [(''type'', PStr ''request''), (''id'', PStr ''tok1'')]),
       urandom = [1, 2, 3], uuid4_bytes = 5,
       utcnow = \<lparr>year = 2025, month = 11, day = 28, hour = 5, minute = 15, second = 37\<rparr>\<rparr>,
      \<lparr>received = Inr (PDict [(''type'', PStr ''report''), (''id'', PStr ''r1'')]),
       urandom = [4, 5, 6], uuid4_bytes = 5,
       utcnow = \<lparr>year = 2025, month = 11, day = 28, hour = 5, minute = 15, second = 38\<rparr>\<rparr>]
     \<lparr>active_connections = [], sent = [], send_error = [], closes = [],
      store = \<lparr>tables = [(''deviceids'',
         [\<lparr>device_id = ''simdevice0001'', device_uuid = PStr ''abc''\<rparr>])], fault = None\<rparr>\<rparr>
   = (Raised (TypeError ''__init__() got an unexpected keyword argument correlation_id''),
      \<lparr>active_connections = [(''conn1'', 7)], sent = [], send_error = [], closes = [],
       store = \<lparr>tables = [(''deviceids'',
         [\<lparr>device_id = ''simdevice0001'', device_uuid = PStr ''abc''\<rparr>])], fault = None\<rparr>\<rparr>)"
  by (simp add: handler_defs)

text \<open>
  C2 fails on the code. Three exits of the handler that leave the key \<open>conn1\<close> in the
  registry: the send of the response to a successful claim raises an exception that is not
  \<open>WebSocketDisconnect\<close>; a request finds the pool empty and the error clause raises
  \<open>TypeError\<close>; a message that is a JSON array makes \<open>data.get\<close> raise
  \<open>AttributeError\<close>.
\<close>

theorem handler_exits_without_unregistering:
  "websocket_endpoint
     \<lparr>API_BEARER_TOKEN = None,
      IOT_CONNECTION_STRING = Some ''HostName=hub.example.net;SharedAccessKeyName=owner'',
      IOT_PRIMARY_KEY_DEVICE = Some ''key''\<rparr>
     \<lparr>authorization = None, token_param = None\<rparr> ''conn1'' 7
     [\<lparr>received = Inr (PDict [(''type'', PStr ''request''), (''id'', PStr ''tok1'')]),
       urandom = [1, 2, 3], uuid4_bytes = 5,
       utcnow = \<lparr>year = 2025, month = 11, day = 28, hour = 5, minute = 15, second = 37\<rparr>\<rparr>]
     \<lparr>active_connections = [], sent = [],
      send_error = [(7, OtherException ''Cannot call send once a close message has been sent'')],
      closes = [],
      store = \<lparr>tables = [(''deviceids'',
         [\<lparr>device_id = ''simdevice0001'', device_uuid = PNone\<rparr>])], fault = None\<rparr>\<rparr>
   = (Raised (OtherException ''Cannot call send once a close message has been sent''),
      \<lparr>active_connections = [(''conn1'', 7)], sent = [],
       send_error = [(7, OtherException ''Cannot call send once a close message has been sent'')],
       closes = [],
       store = \<lparr>tables = [(''deviceids'',
         [\<lparr>device_id = ''simdevice0001'', device_uuid = PStr ''tok1''\<rparr>])], fault = None\<rparr>\<rparr>)
   \<and> websocket_endpoint
     \<lparr>API_BEARER_TOKEN = None,
      IOT_CONNECTION_STRING = Some ''HostName=hub.example.net;SharedAccessKeyName=owner'',
      IOT_PRIMARY_KEY_DEVICE = Some ''key''\<rparr>
     \<lparr>authorization = None, token_param = None\<rparr> ''conn1'' 7
     [\<lparr>received = Inr (PDict [(''type'', PStr ''request''), (''id'', PStr ''tok1'')]),
       urandom = [1, 2, 3], uuid4_bytes = 5,
       utcnow = \<lparr>year = 2025, month = 11, day = 28, hour = 5, minute = 15, second = 37\<rparr>\<rparr>]
     \<lparr>active_connections = [], sent = [], send_error = [], closes = [],
      store = \<lparr>tables = [(''deviceids'', [])], fault = None\<rparr>\<rparr>
   = (Raised (TypeError ''__init__() got an unexpected keyword argument correlation_id''),
      \<lparr>active_connections = [(''conn1'', 7)], sent = [], send_error = [], closes = [],
       store = \<lparr>tables = [(''deviceids'', [])], fault = None\<rparr>\<rparr>)
   \<and> websocket_endpoint
     \<lparr>API_BEARER_TOKEN = None,
      IOT_CONNECTION_STRING = Some ''HostName=hub.example.net;SharedAccessKeyName=owner'',
      IOT_PRIMARY_KEY_DEVICE = Some ''key''\<rparr>
     \<lparr>authorization = None, token_param = None\<rparr> ''conn1'' 7
     [\<lparr>received = Inr (PList []),
       urandom = [1, 2, 3], uuid4_bytes = 5,
       utcnow = \<lparr>year = 2025, month = 11, day = 28, hour = 5, minute = 15, second = 37\<rparr>\<rparr>]
     \<lparr>active_connections = [], sent = [], send_error = [], closes = [],
      store = \<lparr>tables = [(''deviceids'', [])], fault = None\<rparr>\<rparr>
   = (Raised (AttributeError ''object has no attribute get''),
      \<lparr>active_connections = [(''conn1'', 7)], sent = [], send_error = [], closes = [],
       store = \<lparr>tables = [(''deviceids'', [])], fault = None\<rparr>\<rparr>)"
  by (simp add: handler_defs)

end
